theory Spec2Isabelle
  imports Main "HOL-Library.List_Lexorder" "HOL-Library.Multiset"
begin

section \<open>The chat hub of \<^verbatim>\<open>main.py\<close>\<close>

text \<open>
  The program is one module: a \<^verbatim>\<open>ConnectionManager\<close> holding the dictionary
  \<^verbatim>\<open>active_connections\<close> from client identity to WebSocket, a MongoDB collection
  \<^verbatim>\<open>messages_collection\<close>, and the coroutine \<^verbatim>\<open>websocket_endpoint\<close> that
  serves one connection. The WebSocket objects, the collection and the clock are library
  objects: they are modelled by what the program can observe of them (what was sent to a
  socket, which documents the collection holds, whether a call raises).
\<close>

subsection \<open>Exceptions and results\<close>

text \<open>
  The exceptions that can reach the program. \<open>WebSocketDisconnect\<close> is the one the
  endpoint names in its \<^verbatim>\<open>except\<close> clause; \<open>RuntimeError\<close> is what a dictionary
  iterator raises when the dictionary changed size during iteration (a socket raises it
  too when used after its close); \<open>KeyError\<close> is \<^verbatim>\<open>del d[k]\<close> on a missing key
  (and \<^verbatim>\<open>receive_text\<close> on a binary frame); \<open>ValueError\<close> is a negative length
  given to \<^verbatim>\<open>to_list\<close>; \<open>PyMongoError\<close> stands for a failure of the storage.
\<close>

datatype exn = WebSocketDisconnect | RuntimeError | KeyError | ValueError | PyMongoError

subsection \<open>Python strings\<close>

text \<open>
  A \<^verbatim>\<open>str\<close> is a sequence of Unicode code points, so a string is a list of
  numbers. \<open>ustr\<close> gives the string of an ASCII literal. Strings compare by code
  point, first difference first.
\<close>

type_synonym pystr = "nat list"

definition ustr :: "string \<Rightarrow> pystr" where
  "ustr s = map of_char s"

subsection \<open>Python dictionaries, in insertion order\<close>

text \<open>
  A \<^verbatim>\<open>dict\<close> keeps its keys in insertion order and \<^verbatim>\<open>values()\<close> iterates in
  that order, so the dictionary is an association list with distinct keys.
  \<^verbatim>\<open>d[k] = v\<close> replaces the value in place when \<open>k\<close> is present and appends
  otherwise; \<^verbatim>\<open>del d[k]\<close> raises \<open>KeyError\<close> when \<open>k\<close> is absent;
  \<^verbatim>\<open>d.get(k)\<close> is \<open>None\<close> when \<open>k\<close> is absent.
\<close>

type_synonym ('k, 'v) dict = "('k \<times> 'v) list"

fun dict_setitem :: "('k, 'v) dict \<Rightarrow> 'k \<Rightarrow> 'v \<Rightarrow> ('k, 'v) dict" where
  "dict_setitem [] k v = [(k, v)]"
| "dict_setitem ((k', v') # d) k v =
     (if k' = k then (k, v) # d else (k', v') # dict_setitem d k v)"

definition dict_remove :: "('k, 'v) dict \<Rightarrow> 'k \<Rightarrow> ('k, 'v) dict" where
  "dict_remove d k = filter (\<lambda>(k', v'). k' \<noteq> k) d"

definition dict_contains :: "('k, 'v) dict \<Rightarrow> 'k \<Rightarrow> bool" where
  "dict_contains d k = (k \<in> set (map fst d))"

definition dict_delitem :: "('k, 'v) dict \<Rightarrow> 'k \<Rightarrow> exn + ('k, 'v) dict" where
  "dict_delitem d k = (if dict_contains d k then Inr (dict_remove d k) else Inl KeyError)"

definition dict_get :: "('k, 'v) dict \<Rightarrow> 'k \<Rightarrow> 'v option" where
  "dict_get d k = map_of d k"

definition dict_values :: "('k, 'v) dict \<Rightarrow> 'v list" where
  "dict_values d = map snd d"

subsection \<open>The state\<close>

text \<open>The pydantic model \<^verbatim>\<open>Message\<close>: three strings.\<close>

record message =
  client_id :: pystr
  content :: pystr
  timestamp :: pystr

text \<open>A WebSocket object is known by its identity.\<close>

type_synonym handle = nat

text \<open>The calls the program makes on the collection, in the order it makes them.\<close>

datatype db_call = InsertOne message | FindSortLimit int

text \<open>
  \<open>active_connections\<close> is the manager's dictionary. The rest is the world around it:
  \<open>sent ws\<close> is the texts that \<^verbatim>\<open>send_text\<close> has written to socket \<open>ws\<close>, oldest
  first; \<open>send_raises ws\<close> and \<open>accept_raises ws\<close> say whether the socket is faulted
  and with which exception; \<open>messages_collection\<close> is the documents stored, in
  insertion order; \<open>db_raises\<close> says whether the storage is degraded; \<open>db_calls\<close> is
  the trace of calls issued to the collection.
\<close>

record world =
  active_connections :: "(pystr, handle) dict"
  sent :: "handle \<Rightarrow> pystr list"
  send_raises :: "handle \<Rightarrow> exn option"
  accept_raises :: "handle \<Rightarrow> exn option"
  messages_collection :: "message list"
  db_raises :: "exn option"
  db_calls :: "db_call list"

text \<open>A call returns a value or raises; the world it leaves is returned in both cases.\<close>

type_synonym 'a result = "(exn + 'a) \<times> world"

subsection \<open>The library calls\<close>

definition accept :: "handle \<Rightarrow> world \<Rightarrow> unit result" where
  "accept websocket w =
     (case accept_raises w websocket of Some e \<Rightarrow> (Inl e, w) | None \<Rightarrow> (Inr (), w))"

definition send_text :: "handle \<Rightarrow> pystr \<Rightarrow> world \<Rightarrow> unit result" where
  "send_text websocket text w =
     (case send_raises w websocket of
        Some e \<Rightarrow> (Inl e, w)
      | None \<Rightarrow> (Inr (), w\<lparr>sent := (sent w)(websocket := sent w websocket @ [text])\<rparr>))"

definition insert_one :: "message \<Rightarrow> world \<Rightarrow> unit result" where
  "insert_one doc w =
     (let w1 = w\<lparr>db_calls := db_calls w @ [InsertOne doc]\<rparr> in
      case db_raises w of
        Some e \<Rightarrow> (Inl e, w1)
      | None \<Rightarrow> (Inr (), w1\<lparr>messages_collection := messages_collection w @ [doc]\<rparr>))"

text \<open>
  \<^verbatim>\<open>find().sort("timestamp", -1)\<close>: the documents by descending timestamp (the
  timestamps are strings and compare as strings). \<^verbatim>\<open>limit(n)\<close> of a cursor: zero
  means no limit, a negative number limits to its absolute value. \<^verbatim>\<open>to_list(length)\<close>
  rejects a negative length and returns at most \<open>length\<close> documents.
\<close>

definition sort_timestamp_desc :: "message list \<Rightarrow> message list" where
  "sort_timestamp_desc docs = rev (sort_key timestamp docs)"

definition cursor_limit :: "int \<Rightarrow> message list \<Rightarrow> message list" where
  "cursor_limit n docs = (if n = 0 then docs else take (nat \<bar>n\<bar>) docs)"

definition to_list :: "int \<Rightarrow> message list \<Rightarrow> world \<Rightarrow> (message list) result" where
  "to_list len docs w =
     (if len < 0 then (Inl ValueError, w)
      else case db_raises w of
        Some e \<Rightarrow> (Inl e, w\<lparr>db_calls := db_calls w @ [FindSortLimit len]\<rparr>)
      | None \<Rightarrow> (Inr (take (nat len) docs), w\<lparr>db_calls := db_calls w @ [FindSortLimit len]\<rparr>))"

subsection \<open>ConnectionManager\<close>

text \<open>
  The methods of the class, in the order of the source; the parameter \<^verbatim>\<open>client_id\<close>
  is written \<open>cid\<close>. \<^verbatim>\<open>__init__\<close> starts with the empty dictionary.
  \<^verbatim>\<open>connect\<close> awaits \<^verbatim>\<open>accept\<close> and then stores the socket under the identity.
  \<^verbatim>\<open>disconnect\<close> deletes the entry behind a membership test.
  \<^verbatim>\<open>send_personal_message\<close> sends when \<^verbatim>\<open>get\<close> finds a socket (a WebSocket object
  is truthy, \<open>None\<close> is not). \<^verbatim>\<open>add_to_history\<close> inserts the message into the
  collection. \<^verbatim>\<open>get_message_history\<close> sorts by timestamp, newest first, limits the
  cursor and collects at most \<open>limit\<close> documents. \<^verbatim>\<open>broadcast\<close> follows below, after
  the other coroutines.
\<close>

definition init :: "world \<Rightarrow> world" where
  "init w = w\<lparr>active_connections := []\<rparr>"

definition connect :: "pystr \<Rightarrow> handle \<Rightarrow> world \<Rightarrow> unit result" where
  "connect cid websocket w =
     (case accept websocket w of
        (Inl e, w') \<Rightarrow> (Inl e, w')
      | (Inr _, w') \<Rightarrow>
          (Inr (), w'\<lparr>active_connections := dict_setitem (active_connections w') cid websocket\<rparr>))"

definition disconnect :: "pystr \<Rightarrow> world \<Rightarrow> unit result" where
  "disconnect cid w =
     (if dict_contains (active_connections w) cid then
        (case dict_delitem (active_connections w) cid of
           Inl e \<Rightarrow> (Inl e, w)
         | Inr d \<Rightarrow> (Inr (), w\<lparr>active_connections := d\<rparr>))
      else (Inr (), w))"

definition send_personal_message :: "pystr \<Rightarrow> pystr \<Rightarrow> world \<Rightarrow> unit result" where
  "send_personal_message text cid w =
     (case dict_get (active_connections w) cid of
        None \<Rightarrow> (Inr (), w)
      | Some websocket \<Rightarrow> send_text websocket text w)"

definition add_to_history :: "message \<Rightarrow> world \<Rightarrow> unit result" where
  "add_to_history m w = insert_one m w"

definition get_message_history :: "int \<Rightarrow> world \<Rightarrow> (message list) result" where
  "get_message_history limit w =
     to_list limit (cursor_limit limit (sort_timestamp_desc (messages_collection w))) w"

subsection \<open>json.dumps of a message\<close>

text \<open>
  \<^verbatim>\<open>json.dumps(message.dict())\<close>: the three fields in declaration order, each string
  in double quotes with the encoder's ASCII escapes: the short escapes of quote,
  backslash, backspace, form feed, newline, carriage return and tab; for the other code
  points outside \<^verbatim>\<open>' '..'~'\<close>, \<^verbatim>\<open>\uXXXX\<close> with four lower-case hexadecimal digits
  when the code point is below \<open>0x10000\<close> and the two escapes of its surrogate pair
  otherwise; every other code point as it is.
\<close>

definition hexdigit :: "nat \<Rightarrow> nat" where
  "hexdigit d = (if d < 10 then 0x30 + d else 0x61 + (d - 10))"

definition hex4 :: "nat \<Rightarrow> pystr" where
  "hex4 n = map (\<lambda>i. hexdigit ((n div 16 ^ i) mod 16)) [3, 2, 1, 0]"

definition escape_char :: "nat \<Rightarrow> pystr" where
  "escape_char c =
     (if c = 0x22 then [0x5C, 0x22]
      else if c = 0x5C then [0x5C, 0x5C]
      else if c = 0x08 then [0x5C, 0x62]
      else if c = 0x0C then [0x5C, 0x66]
      else if c = 0x0A then [0x5C, 0x6E]
      else if c = 0x0D then [0x5C, 0x72]
      else if c = 0x09 then [0x5C, 0x74]
      else if c < 0x20 \<or> 0x7E < c then
        (if c < 0x10000 then [0x5C, 0x75] @ hex4 c
         else [0x5C, 0x75] @ hex4 (0xD800 + ((c - 0x10000) div 0x400) mod 0x400)
              @ [0x5C, 0x75] @ hex4 (0xDC00 + (c - 0x10000) mod 0x400))
      else [c])"

definition encode_str :: "pystr \<Rightarrow> pystr" where
  "encode_str s = [0x22] @ concat (map escape_char s) @ [0x22]"

definition json_dumps :: "message \<Rightarrow> pystr" where
  "json_dumps m =
     ustr ''{'' @ encode_str (ustr ''client_id'') @ ustr '': '' @ encode_str (client_id m)
       @ ustr '', '' @ encode_str (ustr ''content'') @ ustr '': '' @ encode_str (content m)
       @ ustr '', '' @ encode_str (ustr ''timestamp'') @ ustr '': '' @ encode_str (timestamp m)
       @ ustr ''}''"

subsection \<open>Other coroutines\<close>

text \<open>
  The server is one asyncio event loop: a coroutine runs alone until it reaches an
  \<^verbatim>\<open>await\<close>, and while it is suspended there the handlers of the other connections
  may run, any number of them. What they do to the manager is \<^verbatim>\<open>connect\<close> and
  \<^verbatim>\<open>disconnect\<close>.
\<close>

datatype event = Connect pystr handle | Disconnect pystr

fun apply_event :: "event \<Rightarrow> world \<Rightarrow> world" where
  "apply_event (Connect cid websocket) w = snd (connect cid websocket w)"
| "apply_event (Disconnect cid) w = snd (disconnect cid w)"

definition apply_events :: "event list \<Rightarrow> world \<Rightarrow> world" where
  "apply_events evs w = fold apply_event evs w"

text \<open>
  An event changes the keys of the dictionary when it stores under an identity that is
  absent or deletes one that is present. Storing under a present identity replaces a
  value in place, and the other events leave the dictionary alone.
\<close>

fun changes_keys :: "event \<Rightarrow> world \<Rightarrow> bool" where
  "changes_keys (Connect cid websocket) w =
     (accept_raises w websocket = None \<and> \<not> dict_contains (active_connections w) cid)"
| "changes_keys (Disconnect cid) w = dict_contains (active_connections w) cid"

fun keys_changed :: "event list \<Rightarrow> world \<Rightarrow> bool" where
  "keys_changed [] w = False"
| "keys_changed (ev # evs) w = (changes_keys ev w \<or> keys_changed evs (apply_event ev w))"

subsection \<open>broadcast\<close>

text \<open>
  \<^verbatim>\<open>for connection in self.active_connections.values(): await connection.send_text(message)\<close>.
  The loop iterates a view of the dictionary itself. The iterator records the size of the
  dictionary when it is created (\<open>di_used\<close>), its position (\<open>di_pos\<close>) and how many
  values it has still to yield (\<open>len\<close>). Each \<^verbatim>\<open>next\<close> first raises \<open>RuntimeError\<close>
  if the size is not the recorded one; then it stops if no entry is left from its
  position on; then it raises \<open>RuntimeError\<close> if it has an entry but nothing left to
  yield (the keys have changed); otherwise it yields the value at its position.
  An exception of \<^verbatim>\<open>send_text\<close> is not caught: it ends the loop.

  Each \<^verbatim>\<open>await\<close> of a send is a point where other handlers run. The schedule gives,
  for each send in turn, the events of the other handlers while the send is awaited, in
  their order (an empty schedule is a broadcast that nothing interleaves with). When
  those events have not changed the keys, the iterator moves to the next entry. When
  they have changed the keys and left the size as recorded, the entry at which the
  iterator goes on depends on how the interpreter laid the dictionary out in memory,
  which the program does not determine: the schedule gives that index with the events.
\<close>

type_synonym interleaving = "event list \<times> nat"

definition interleaved :: "interleaving list \<Rightarrow> interleaving" where
  "interleaved sched = (case sched of [] \<Rightarrow> ([], 0) | s # _ \<Rightarrow> s)"

function broadcast_next ::
  "nat \<Rightarrow> nat \<Rightarrow> nat \<Rightarrow> pystr \<Rightarrow> interleaving list \<Rightarrow> world \<Rightarrow> unit result" where
  "broadcast_next di_used di_pos len text sched w =
     (if length (active_connections w) \<noteq> di_used then (Inl RuntimeError, w)
      else if length (active_connections w) \<le> di_pos then (Inr (), w)
      else if len = 0 then (Inl RuntimeError, w)
      else
        let connection = dict_values (active_connections w) ! di_pos;
            evs = fst (interleaved sched);
            w1 = apply_events evs w;
            pos1 = (if keys_changed evs w then snd (interleaved sched) else Suc di_pos)
        in case send_text connection text w1 of
             (Inl e, w2) \<Rightarrow> (Inl e, w2)
           | (Inr _, w2) \<Rightarrow> broadcast_next di_used pos1 (len - 1) text (tl sched) w2)"
  by pat_completeness auto
termination
  by (relation "measure (\<lambda>(di_used, di_pos, len, text, sched, w). len)") auto

definition broadcast :: "pystr \<Rightarrow> interleaving list \<Rightarrow> world \<Rightarrow> unit result" where
  "broadcast text sched w =
     broadcast_next (length (active_connections w)) 0 (length (active_connections w))
       text sched w"

subsection \<open>websocket_endpoint\<close>

text \<open>
  One pass of the \<^verbatim>\<open>while True\<close> loop takes from outside: what
  \<^verbatim>\<open>receive_text\<close> does (a text, or an exception), the clock reading
  \<^verbatim>\<open>str(datetime.now())\<close>, and what the other handlers do while this one is suspended
  in \<^verbatim>\<open>receive_text\<close>, in \<^verbatim>\<open>add_to_history\<close> and in each send of the broadcast.
\<close>

datatype inbound = Text pystr | Raises exn

record turn =
  during_receive :: "event list"
  received :: inbound
  clock :: pystr
  during_insert :: "event list"
  during_sends :: "interleaving list"

definition loop_body :: "pystr \<Rightarrow> turn \<Rightarrow> world \<Rightarrow> unit result" where
  "loop_body cid t w =
     (let w0 = apply_events (during_receive t) w in
      case received t of
        Raises e \<Rightarrow> (Inl e, w0)
      | Text data \<Rightarrow>
          (let m = \<lparr>client_id = cid, content = data, timestamp = clock t\<rparr> in
           (case add_to_history m w0 of
              (Inl e, w1) \<Rightarrow> (Inl e, apply_events (during_insert t) w1)
            | (Inr _, w1) \<Rightarrow>
                broadcast (json_dumps m) (during_sends t)
                  (apply_events (during_insert t) w1))))"

text \<open>
  The loop runs until a pass raises; when the inbound turns are used up the handler is
  suspended in \<^verbatim>\<open>receive_text\<close>, and the loop has raised nothing yet (\<open>None\<close>).
\<close>

fun while_true :: "pystr \<Rightarrow> turn list \<Rightarrow> world \<Rightarrow> exn option \<times> world" where
  "while_true cid [] w = (None, w)"
| "while_true cid (t # ts) w =
     (case loop_body cid t w of
        (Inl e, w') \<Rightarrow> (Some e, w')
      | (Inr _, w') \<Rightarrow> while_true cid ts w')"

text \<open>
  How a run of the handler stands after the given turns: still waiting for input,
  returned (after the \<^verbatim>\<open>except WebSocketDisconnect\<close> clause), or ended by an exception
  that nothing caught. \<^verbatim>\<open>connect\<close> is called outside the \<^verbatim>\<open>try\<close>.
\<close>

datatype outcome = Waiting | Returned | Raised exn

definition websocket_endpoint ::
  "handle \<Rightarrow> pystr \<Rightarrow> turn list \<Rightarrow> world \<Rightarrow> outcome \<times> world" where
  "websocket_endpoint websocket cid ts w =
     (case connect cid websocket w of
        (Inl e, w1) \<Rightarrow> (Raised e, w1)
      | (Inr _, w1) \<Rightarrow>
          (case while_true cid ts w1 of
             (None, w2) \<Rightarrow> (Waiting, w2)
           | (Some WebSocketDisconnect, w2) \<Rightarrow>
               (case disconnect cid w2 of
                  (Inl e, w3) \<Rightarrow> (Raised e, w3)
                | (Inr _, w3) \<Rightarrow> (Returned, w3))
           | (Some e, w2) \<Rightarrow> (Raised e, w2)))"

subsection \<open>Notions used in the statements\<close>

text \<open>The world after \<open>text\<close> has been written to each socket of \<open>cs\<close>.\<close>

definition deliver :: "handle list \<Rightarrow> pystr \<Rightarrow> world \<Rightarrow> world" where
  "deliver cs text w = w\<lparr>sent := (\<lambda>c. sent w c @ replicate (count_list cs c) text)\<rparr>"



subsection \<open>Example worlds\<close>

text \<open>
  A room with three connections, healthy sockets and a healthy storage; the same room
  with a degraded storage; and the same room with the socket of \<open>bo\<close> faulted.
\<close>

definition room :: world where
  "room = \<lparr>active_connections = [((ustr ''ann''), 1), ((ustr ''bo''), 2), ((ustr ''cy''), 3)],
           sent = (\<lambda>_. []), send_raises = (\<lambda>_. None), accept_raises = (\<lambda>_. None),
           messages_collection = [], db_raises = None, db_calls = []\<rparr>"

definition room_storage_down :: world where
  "room_storage_down = room\<lparr>db_raises := Some PyMongoError\<rparr>"

definition room_bo_faulted :: world where
  "room_bo_faulted = room\<lparr>send_raises := (\<lambda>_. None)(2 := Some RuntimeError)\<rparr>"

text \<open>The room with three messages in the collection, stored out of order.\<close>

definition archive :: world where
  "archive = room\<lparr>messages_collection :=
     [\<lparr>client_id = (ustr ''ann''), content = (ustr ''second''), timestamp = (ustr ''t2'')\<rparr>,
      \<lparr>client_id = (ustr ''bo''), content = (ustr ''third''), timestamp = (ustr ''t3'')\<rparr>,
      \<lparr>client_id = (ustr ''cy''), content = (ustr ''first''), timestamp = (ustr ''t1'')\<rparr>]\<rparr>"

text \<open>A turn in which a text arrives and no other handler runs.\<close>

definition says :: "pystr \<Rightarrow> pystr \<Rightarrow> turn" where
  "says data now = \<lparr>during_receive = [], received = Text data, clock = now,
                     during_insert = [], during_sends = []\<rparr>"

section \<open>Facts about dictionaries\<close>

lemma dict_contains_Nil [simp]: "\<not> dict_contains [] k"
  by (simp add: dict_contains_def)

lemma dict_contains_Cons [simp]:
  "dict_contains (p # d) k = (fst p = k \<or> dict_contains d k)"
  by (auto simp: dict_contains_def)

lemma dict_remove_Nil [simp]: "dict_remove [] k = []"
  by (simp add: dict_remove_def)

lemma dict_remove_Cons [simp]:
  "dict_remove (p # d) k = (if fst p = k then dict_remove d k else p # dict_remove d k)"
  by (cases p) (simp add: dict_remove_def)

lemma dict_contains_remove: "dict_contains (dict_remove d k) k' = (k' \<noteq> k \<and> dict_contains d k')"
  by (induction d) auto

lemma dict_remove_absent: "\<not> dict_contains d k \<Longrightarrow> dict_remove d k = d"
  by (induction d) auto

lemma dict_remove_idem: "dict_remove (dict_remove d k) k = dict_remove d k"
  by (simp add: dict_remove_def)

lemma dict_get_remove_other: "k' \<noteq> k \<Longrightarrow> dict_get (dict_remove d k) k' = dict_get d k'"
  by (induction d) (auto simp: dict_get_def)








lemma dict_get_None: "dict_get d k = None \<longleftrightarrow> \<not> dict_contains d k"
  by (simp add: dict_get_def dict_contains_def map_of_eq_None_iff)

section \<open>Facts about the operations\<close>

lemma disconnect_eq:
  "disconnect cid w =
     (Inr (), w\<lparr>active_connections := dict_remove (active_connections w) cid\<rparr>)"
  by (simp add: disconnect_def dict_delitem_def dict_remove_absent)

declare broadcast_next.simps [simp del]

lemma deliver_fields [simp]:
  "active_connections (deliver cs text w) = active_connections w"
  "sent (deliver cs text w) c = sent w c @ replicate (count_list cs c) text"
  "send_raises (deliver cs text w) = send_raises w"
  "accept_raises (deliver cs text w) = accept_raises w"
  "messages_collection (deliver cs text w) = messages_collection w"
  "db_raises (deliver cs text w) = db_raises w"
  "db_calls (deliver cs text w) = db_calls w"
  by (simp_all add: deliver_def)

lemma deliver_Nil [simp]: "deliver [] text w = w"
  by (simp add: deliver_def)

lemma deliver_deliver: "deliver cs text (deliver bs text w) = deliver (bs @ cs) text w"
  by (simp add: deliver_def fun_eq_iff replicate_add)

lemma send_text_ok:
  "send_raises w c = None \<Longrightarrow> send_text c text w = (Inr (), deliver [c] text w)"
  by (simp add: send_text_def deliver_def fun_eq_iff)

lemma send_text_fails: "send_raises w c = Some e \<Longrightarrow> send_text c text w = (Inl e, w)"
  by (simp add: send_text_def)

lemma connect_eq:
  "connect cid websocket w =
     (case accept_raises w websocket of
        Some e \<Rightarrow> (Inl e, w)
      | None \<Rightarrow>
          (Inr (), w\<lparr>active_connections := dict_setitem (active_connections w) cid websocket\<rparr>))"
  by (simp add: connect_def accept_def split: option.splits)

lemma apply_event_fields [simp]:
  "sent (apply_event ev w) = sent w"
  "send_raises (apply_event ev w) = send_raises w"
  "accept_raises (apply_event ev w) = accept_raises w"
  "messages_collection (apply_event ev w) = messages_collection w"
  "db_raises (apply_event ev w) = db_raises w"
  "db_calls (apply_event ev w) = db_calls w"
  by (cases ev; simp add: connect_eq disconnect_eq split: option.splits)+


lemma apply_events_fields [simp]:
  "sent (apply_events evs w) = sent w"
  "send_raises (apply_events evs w) = send_raises w"
  "accept_raises (apply_events evs w) = accept_raises w"
  "messages_collection (apply_events evs w) = messages_collection w"
  "db_raises (apply_events evs w) = db_raises w"
  "db_calls (apply_events evs w) = db_calls w"
  unfolding apply_events_def by (induction evs arbitrary: w; simp)+

lemma apply_events_Nil [simp]: "apply_events [] w = w"
  by (simp add: apply_events_def)

lemma apply_events_Cons [simp]: "apply_events (ev # evs) w = apply_events evs (apply_event ev w)"
  by (simp add: apply_events_def)




lemma ustr_eq_iff [simp]: "ustr a = ustr b \<longleftrightarrow> a = b"
  by (simp add: ustr_def inj_map_eq_map [OF inj_of_char])

lemma interleaved_Nil [simp]: "interleaved [] = ([], 0)"
  by (simp add: interleaved_def)

lemma interleaved_Cons [simp]: "interleaved (s # sched) = s"
  by (simp add: interleaved_def)

text \<open>A broadcast that nothing interleaves with for its next \<open>n\<close> sends, all to healthy sockets.\<close>

lemma broadcast_next_prefix:
  assumes "length (active_connections w) = di_used"
    and "di_pos + n \<le> di_used"
    and "n \<le> len"
    and "\<forall>c \<in> set (take n (drop di_pos (dict_values (active_connections w)))). send_raises w c = None"
    and "\<forall>i<n. i < length sched \<longrightarrow> fst (sched ! i) = []"
  shows "broadcast_next di_used di_pos len text sched w =
         broadcast_next di_used (di_pos + n) (len - n) text (drop n sched)
           (deliver (take n (drop di_pos (dict_values (active_connections w)))) text w)"
  using assms
proof (induction n arbitrary: di_pos len sched w)
  case 0
  then show ?case by simp
next
  case (Suc n)
  let ?vs = "dict_values (active_connections w)"
  have len: "length ?vs = di_used" using Suc.prems(1) by (simp add: dict_values_def)
  have pos: "di_pos < length ?vs" using Suc.prems(2) len by simp
  have split: "take (Suc n) (drop di_pos ?vs) = ?vs ! di_pos # take n (drop (Suc di_pos) ?vs)"
    using pos by (simp add: Cons_nth_drop_Suc [symmetric])
  have ok: "send_raises w (?vs ! di_pos) = None"
    using Suc.prems(4) split by simp
  have hd_none: "fst (interleaved sched) = []"
    using Suc.prems(5) by (cases sched) auto
  have tl_none: "\<forall>i<n. i < length (tl sched) \<longrightarrow> fst (tl sched ! i) = []"
    using Suc.prems(5) by (cases sched) auto
  have step: "broadcast_next di_used di_pos len text sched w =
              broadcast_next di_used (Suc di_pos) (len - 1) text (tl sched)
                (deliver [?vs ! di_pos] text w)"
    using Suc.prems(1,3) pos len ok
    by (subst broadcast_next.simps) (simp add: hd_none send_text_ok Let_def)
  have "broadcast_next di_used (Suc di_pos) (len - 1) text (tl sched)
          (deliver [?vs ! di_pos] text w) =
        broadcast_next di_used (Suc di_pos + n) (len - 1 - n) text (drop n (tl sched))
          (deliver (take n (drop (Suc di_pos) ?vs)) text (deliver [?vs ! di_pos] text w))"
    using Suc.IH [of "deliver [?vs ! di_pos] text w" "Suc di_pos" "len - 1" "tl sched"]
      Suc.prems split tl_none
    by simp
  then show ?case
    using step split by (simp add: deliver_deliver drop_Suc)
qed

lemma broadcast_next_end:
  "length (active_connections w) = di_used \<Longrightarrow>
   broadcast_next di_used di_used len text sched w = (Inr (), w)"
  by (subst broadcast_next.simps) simp


lemma dict_values_append [simp]: "dict_values (d @ d') = dict_values d @ dict_values d'"
  by (simp add: dict_values_def)

lemma dict_values_Cons [simp]: "dict_values (p # d) = snd p # dict_values d"
  by (simp add: dict_values_def)

lemma dict_values_Nil [simp]: "dict_values [] = []"
  by (simp add: dict_values_def)

lemma length_dict_values [simp]: "length (dict_values d) = length d"
  by (simp add: dict_values_def)

lemma broadcast_quiet_ok:
  assumes "\<forall>c \<in> set (dict_values (active_connections w)). send_raises w c = None"
  shows "broadcast text [] w = (Inr (), deliver (dict_values (active_connections w)) text w)"
proof -
  let ?n = "length (active_connections w)"
  have "broadcast_next ?n 0 ?n text [] w =
        broadcast_next ?n (0 + ?n) (?n - ?n) text (drop ?n [])
          (deliver (take ?n (drop 0 (dict_values (active_connections w)))) text w)"
    using assms by (intro broadcast_next_prefix) simp_all
  then show ?thesis
    by (simp add: broadcast_def broadcast_next_end)
qed

lemma add_to_history_eq:
  "add_to_history m w =
     (case db_raises w of
        Some e \<Rightarrow> (Inl e, w\<lparr>db_calls := db_calls w @ [InsertOne m]\<rparr>)
      | None \<Rightarrow> (Inr (), w\<lparr>db_calls := db_calls w @ [InsertOne m],
                              messages_collection := messages_collection w @ [m]\<rparr>))"
  by (simp add: add_to_history_def insert_one_def Let_def split: option.splits)

lemma send_text_fields [simp]:
  "active_connections (snd (send_text c msg w)) = active_connections w"
  "send_raises (snd (send_text c msg w)) = send_raises w"
  "accept_raises (snd (send_text c msg w)) = accept_raises w"
  "messages_collection (snd (send_text c msg w)) = messages_collection w"
  "db_raises (snd (send_text c msg w)) = db_raises w"
  "db_calls (snd (send_text c msg w)) = db_calls w"
  by (simp_all add: send_text_def split: option.splits)


lemma broadcast_next_storage:
  "messages_collection (snd (broadcast_next di_used di_pos len msg sched w)) = messages_collection w
   \<and> db_calls (snd (broadcast_next di_used di_pos len msg sched w)) = db_calls w
   \<and> db_raises (snd (broadcast_next di_used di_pos len msg sched w)) = db_raises w"
proof (induction di_used di_pos len msg sched w rule: broadcast_next.induct)
  case (1 di_used di_pos len msg sched w)
  let ?c = "dict_values (active_connections w) ! di_pos"
  let ?evs = "fst (interleaved sched)"
  let ?w1 = "apply_events ?evs w"
  let ?pos = "if keys_changed ?evs w then snd (interleaved sched) else Suc di_pos"
  show ?case
  proof (cases "length (active_connections w) \<noteq> di_used
      \<or> length (active_connections w) \<le> di_pos \<or> len = 0")
    case True
    then show ?thesis by (subst (1 2 3) broadcast_next.simps) auto
  next
    case False
    obtain r w2 where s: "send_text ?c msg ?w1 = (r, w2)" by (cases "send_text ?c msg ?w1")
    have w2: "messages_collection w2 = messages_collection w \<and> db_calls w2 = db_calls w
              \<and> db_raises w2 = db_raises w"
      using send_text_fields [of ?c msg ?w1] s by simp
    show ?thesis
    proof (cases r)
      case (Inl e)
      then show ?thesis
        using False s w2 by (subst (1 2 3) broadcast_next.simps) (simp add: Let_def)
    next
      case (Inr u)
      have "messages_collection (snd (broadcast_next di_used ?pos (len - 1) msg (tl sched) w2))
              = messages_collection w2
            \<and> db_calls (snd (broadcast_next di_used ?pos (len - 1) msg (tl sched) w2))
              = db_calls w2
            \<and> db_raises (snd (broadcast_next di_used ?pos (len - 1) msg (tl sched) w2))
              = db_raises w2"
        using False s Inr by (intro "1.IH" [of ?c ?evs ?w1 ?pos r w2 u]) simp_all
      then show ?thesis
        using False s w2 Inr by (subst (1 2 3) broadcast_next.simps) (simp add: Let_def)
    qed
  qed
qed



lemma apply_event_registry_cong:
  "active_connections w = active_connections v \<Longrightarrow> accept_raises w = accept_raises v \<Longrightarrow>
   active_connections (apply_event ev w) = active_connections (apply_event ev v)"
  by (cases ev) (simp_all add: connect_eq disconnect_eq split: option.splits)

lemma apply_events_registry_cong:
  "active_connections w = active_connections v \<Longrightarrow> accept_raises w = accept_raises v \<Longrightarrow>
   active_connections (apply_events evs w) = active_connections (apply_events evs v)"
proof (induction evs arbitrary: w v)
  case Nil
  then show ?case by simp
next
  case (Cons ev evs)
  show ?case
    using Cons.prems apply_event_registry_cong [of w v ev]
    by (simp add: Cons.IH [of "apply_event ev w" "apply_event ev v"])
qed

lemma add_to_history_fields [simp]:
  "active_connections (snd (add_to_history m w)) = active_connections w"
  "sent (snd (add_to_history m w)) = sent w"
  "send_raises (snd (add_to_history m w)) = send_raises w"
  "accept_raises (snd (add_to_history m w)) = accept_raises w"
  "db_raises (snd (add_to_history m w)) = db_raises w"
  "db_calls (snd (add_to_history m w)) = db_calls w @ [InsertOne m]"
  by (simp_all add: add_to_history_eq split: option.splits)

lemma add_to_history_stored:
  "messages_collection (snd (add_to_history m w)) =
     (if db_raises w = None then messages_collection w @ [m] else messages_collection w)"
  by (simp add: add_to_history_eq split: option.splits)

lemma loop_body_Text:
  "received t = Text data \<Longrightarrow>
   loop_body cid t w =
     (let m = \<lparr>client_id = cid, content = data, timestamp = clock t\<rparr>;
          w1 = apply_events (during_insert t)
                 (snd (add_to_history m (apply_events (during_receive t) w)))
      in case db_raises w of
           Some e \<Rightarrow> (Inl e, w1)
         | None \<Rightarrow> broadcast (json_dumps m) (during_sends t) w1)"
  by (cases "add_to_history \<lparr>client_id = cid, content = data, timestamp = clock t\<rparr>
               (apply_events (during_receive t) w)")
     (auto simp: loop_body_def Let_def add_to_history_eq split: option.splits)

lemma loop_body_Raises:
  "received t = Raises e \<Longrightarrow> loop_body cid t w = (Inl e, apply_events (during_receive t) w)"
  by (simp add: loop_body_def)

lemma connect_fields [simp]:
  "sent (snd (connect cid websocket w)) = sent w"
  "send_raises (snd (connect cid websocket w)) = send_raises w"
  "accept_raises (snd (connect cid websocket w)) = accept_raises w"
  "messages_collection (snd (connect cid websocket w)) = messages_collection w"
  "db_raises (snd (connect cid websocket w)) = db_raises w"
  "db_calls (snd (connect cid websocket w)) = db_calls w"
  by (simp_all add: connect_eq split: option.splits)

lemma loop_body_calls:
  "\<exists>ms. db_calls (snd (loop_body cid t w)) = db_calls w @ map InsertOne ms"
proof (cases "received t")
  case (Text data)
  let ?m = "\<lparr>client_id = cid, content = data, timestamp = clock t\<rparr>"
  let ?w1 = "apply_events (during_insert t)
               (snd (add_to_history ?m (apply_events (during_receive t) w)))"
  have "db_calls (snd (loop_body cid t w)) = db_calls w @ map InsertOne [?m]"
    using Text
      broadcast_next_storage [of "length (active_connections ?w1)" 0
        "length (active_connections ?w1)" "json_dumps ?m" "during_sends t" ?w1]
    by (simp add: loop_body_Text Let_def broadcast_def split: option.splits)
  then show ?thesis by blast
next
  case (Raises e)
  then have "db_calls (snd (loop_body cid t w)) = db_calls w @ map InsertOne []"
    by (simp add: loop_body_Raises)
  then show ?thesis by blast
qed

lemma while_true_calls:
  "\<exists>ms. db_calls (snd (while_true cid ts w)) = db_calls w @ map InsertOne ms"
proof (induction ts arbitrary: w)
  case Nil
  have "db_calls (snd (while_true cid [] w)) = db_calls w @ map InsertOne []" by simp
  then show ?case by blast
next
  case (Cons t ts)
  obtain r w' where body: "loop_body cid t w = (r, w')" by (cases "loop_body cid t w")
  obtain ms where ms: "db_calls w' = db_calls w @ map InsertOne ms"
    using loop_body_calls [of cid t w] body by auto
  show ?case
  proof (cases r)
    case (Inl e)
    then show ?thesis using body ms by auto
  next
    case (Inr u)
    obtain ms' where "db_calls (snd (while_true cid ts w')) = db_calls w' @ map InsertOne ms'"
      using Cons.IH [of w'] by blast
    then have "db_calls (snd (while_true cid (t # ts) w)) = db_calls w @ map InsertOne (ms @ ms')"
      using body Inr ms by simp
    then show ?thesis by blast
  qed
qed

lemma websocket_endpoint_refused:
  "accept_raises w websocket = Some e \<Longrightarrow>
   websocket_endpoint websocket cid ts w = (Raised e, w)"
  by (simp add: websocket_endpoint_def connect_eq)

lemma websocket_endpoint_accepted:
  "accept_raises w websocket = None \<Longrightarrow>
   websocket_endpoint websocket cid ts w =
     (case while_true cid ts (snd (connect cid websocket w)) of
        (None, w2) \<Rightarrow> (Waiting, w2)
      | (Some e, w2) \<Rightarrow>
          if e = WebSocketDisconnect then (Returned, snd (disconnect cid w2))
          else (Raised e, w2))"
  by (simp add: websocket_endpoint_def connect_eq disconnect_eq
      split: prod.splits option.splits exn.splits)

lemma disconnect_fields [simp]:
  "sent (snd (disconnect cid w)) = sent w"
  "send_raises (snd (disconnect cid w)) = send_raises w"
  "accept_raises (snd (disconnect cid w)) = accept_raises w"
  "messages_collection (snd (disconnect cid w)) = messages_collection w"
  "db_raises (snd (disconnect cid w)) = db_raises w"
  "db_calls (snd (disconnect cid w)) = db_calls w"
  by (simp_all add: disconnect_eq)

lemma websocket_endpoint_calls:
  "\<exists>ms. db_calls (snd (websocket_endpoint websocket cid ts w)) = db_calls w @ map InsertOne ms"
proof (cases "accept_raises w websocket")
  case (Some e)
  then have "db_calls (snd (websocket_endpoint websocket cid ts w)) = db_calls w @ map InsertOne []"
    by (simp add: websocket_endpoint_refused)
  then show ?thesis by blast
next
  case None
  let ?w1 = "snd (connect cid websocket w)"
  obtain r w2 where loop: "while_true cid ts ?w1 = (r, w2)" by (cases "while_true cid ts ?w1")
  obtain ms where ms: "db_calls w2 = db_calls w @ map InsertOne ms"
    using while_true_calls [of cid ts ?w1] loop by auto
  have "db_calls (snd (websocket_endpoint websocket cid ts w)) = db_calls w2"
    using None loop
    by (simp add: websocket_endpoint_accepted split: option.splits)
  then show ?thesis using ms by auto
qed

lemma sort_timestamp_desc_sorted:
  "sorted_wrt (\<lambda>a b. timestamp b \<le> timestamp a) (sort_timestamp_desc docs)"
proof -
  have "sorted (map timestamp (sort_key timestamp docs))"
    by (rule sorted_sort_key)
  then have "sorted_wrt (\<lambda>a b. timestamp a \<le> timestamp b) (sort_key timestamp docs)"
    by (simp add: sorted_map)
  then show ?thesis
    by (simp add: sort_timestamp_desc_def sorted_wrt_rev)
qed

lemma sort_timestamp_desc_mset: "mset (sort_timestamp_desc docs) = mset docs"
  by (simp add: sort_timestamp_desc_def)

lemma mset_take_subseteq: "mset (take n xs) \<subseteq># mset xs"
proof -
  have "mset xs = mset (take n xs) + mset (drop n xs)"
    by (metis append_take_drop_id mset_append)
  then show ?thesis by simp
qed








lemma init_registry [simp]: "active_connections (init w) = []"
  by (simp add: init_def)






section \<open>Properties of the specification\<close>

text \<open>
  C8. \<^verbatim>\<open>disconnect\<close> never raises; afterwards the identity is not registered and
  every other identity has the socket it had; on an identity that is absent it leaves
  the world as it is; and a second call on the same identity does what the first did,
  so duplicate or out-of-order removals end in the state of a single removal.
\<close>

theorem disconnect_tolerant:
  "fst (disconnect cid w) = Inr ()
   \<and> \<not> dict_contains (active_connections (snd (disconnect cid w))) cid
   \<and> (\<forall>k. k \<noteq> cid \<longrightarrow>
         dict_get (active_connections (snd (disconnect cid w))) k
           = dict_get (active_connections w) k)
   \<and> (\<not> dict_contains (active_connections w) cid \<longrightarrow> snd (disconnect cid w) = w)
   \<and> disconnect cid (snd (disconnect cid w)) = disconnect cid w"
  by (simp add: disconnect_eq dict_contains_remove dict_get_remove_other
      dict_remove_absent dict_remove_idem)

theorem disconnect_tolerant_witness:
  "dict_contains (active_connections room) (ustr ''bo'')
   \<and> fst (disconnect (ustr ''bo'') room) = Inr ()
   \<and> active_connections (snd (disconnect (ustr ''bo'') room)) = [((ustr ''ann''), 1), ((ustr ''cy''), 3)]
   \<and> dict_get (active_connections (snd (disconnect (ustr ''bo'') room))) (ustr ''cy'') = Some 3
   \<and> \<not> dict_contains (active_connections room) (ustr ''zed'')
   \<and> snd (disconnect (ustr ''zed'') room) = room
   \<and> disconnect (ustr ''bo'') (snd (disconnect (ustr ''bo'') room)) = disconnect (ustr ''bo'') room"
  using disconnect_tolerant [of "(ustr ''bo'')" room] disconnect_tolerant [of "(ustr ''zed'')" room]
  by (simp add: room_def disconnect_eq dict_get_def)

text \<open>
  A faulted socket in the middle of the room. \<open>bo\<close>'s socket raises on
  \<^verbatim>\<open>send_text\<close>; \<open>cy\<close> is registered after \<open>bo\<close> and its socket is healthy. The
  broadcast ends with \<open>bo\<close>'s exception and \<open>cy\<close> is sent nothing: the failure is not
  caught for the entry, and it does abort the delivery to the entries that remain.
\<close>

theorem broadcast_fault_aborts_delivery:
  "fst (broadcast (ustr ''hi'') [] room_bo_faulted) = Inl RuntimeError
   \<and> dict_get (active_connections room_bo_faulted) (ustr ''cy'') = Some 3
   \<and> send_raises room_bo_faulted 3 = None
   \<and> sent (snd (broadcast (ustr ''hi'') [] room_bo_faulted)) 3 = []"
  by code_simp

text \<open>
  C2, as the code has it. In a broadcast that no other handler interleaves with, a
  delivery failure on an entry's socket is not caught: the broadcast ends with that
  exception at the first faulted entry in insertion order. The entries before it have
  been sent the message, no send is made for the entries after it, and the registry is
  as it was (the faulted entry stays registered).
\<close>

theorem broadcast_stops_at_first_fault:
  assumes "active_connections w = pre @ (k, h) # post"
    and "\<forall>c \<in> set (dict_values pre). send_raises w c = None"
    and "send_raises w h = Some e"
  shows "broadcast msg [] w = (Inl e, deliver (dict_values pre) msg w)"
proof -
  let ?n = "length (active_connections w)"
  let ?w = "deliver (dict_values pre) msg w"
  have "broadcast_next ?n 0 ?n msg [] w =
        broadcast_next ?n (0 + length pre) (?n - length pre) msg (drop (length pre) [])
          (deliver (take (length pre) (drop 0 (dict_values (active_connections w)))) msg w)"
    using assms by (intro broadcast_next_prefix) simp_all
  then have "broadcast msg [] w = broadcast_next ?n (length pre) (?n - length pre) msg [] ?w"
    using assms(1) by (simp add: broadcast_def)
  also have "\<dots> = (Inl e, ?w)"
    using assms(1,3)
    by (subst broadcast_next.simps) (simp add: send_text_fails nth_append Let_def)
  finally show ?thesis .
qed

theorem broadcast_stops_at_first_fault_witness:
  "active_connections room_bo_faulted = [((ustr ''ann''), 1)] @ ((ustr ''bo''), 2) # [((ustr ''cy''), 3)]
   \<and> send_raises room_bo_faulted 1 = None
   \<and> send_raises room_bo_faulted 2 = Some RuntimeError
   \<and> broadcast (ustr ''hi'') [] room_bo_faulted = (Inl RuntimeError, deliver [1] (ustr ''hi'') room_bo_faulted)
   \<and> sent (deliver [1] (ustr ''hi'') room_bo_faulted) 1 = [(ustr ''hi'')]
   \<and> sent (deliver [1] (ustr ''hi'') room_bo_faulted) 3 = []"
  using broadcast_stops_at_first_fault
    [of room_bo_faulted "[((ustr ''ann''), 1)]" "(ustr ''bo'')" 2 "[((ustr ''cy''), 3)]" RuntimeError "(ustr ''hi'')"]
  by (simp add: room_bo_faulted_def room_def)




text \<open>
  A degraded storage. \<open>ann\<close> sends a text to the room while the storage raises on
  \<^verbatim>\<open>insert_one\<close>. The pass of the loop ends with the storage's exception, and \<open>bo\<close>,
  registered and healthy, is sent nothing.
\<close>

theorem append_failure_blocks_broadcast:
  "fst (loop_body (ustr ''ann'') (says (ustr ''hello'') (ustr ''t1'')) room_storage_down) = Inl PyMongoError
   \<and> dict_get (active_connections room_storage_down) (ustr ''bo'') = Some 2
   \<and> send_raises room_storage_down 2 = None
   \<and> sent (snd (loop_body (ustr ''ann'') (says (ustr ''hello'') (ustr ''t1'')) room_storage_down)) 2 = []"
  by code_simp

text \<open>
  C1, as the code has it. \<^verbatim>\<open>add_to_history\<close> is awaited before the broadcast and
  nothing catches its exception. When the append to the log fails, the pass of the loop
  ends with that exception: no socket is sent the message, the collection holds what it
  held, and the handler's loop ends there, so the turns that follow are not served.
\<close>

theorem append_failure_ends_the_pass:
  assumes "received t = Text data" and "db_raises w = Some e"
  shows "fst (loop_body cid t w) = Inl e
         \<and> sent (snd (loop_body cid t w)) = sent w
         \<and> messages_collection (snd (loop_body cid t w)) = messages_collection w
         \<and> while_true cid (t # ts) w = (Some e, snd (loop_body cid t w))"
proof -
  have "loop_body cid t w =
        (Inl e, apply_events (during_insert t)
           (snd (add_to_history \<lparr>client_id = cid, content = data, timestamp = clock t\<rparr>
              (apply_events (during_receive t) w))))"
    using assms by (simp add: loop_body_Text)
  then show ?thesis
    using assms(2) by (simp add: add_to_history_stored)
qed

theorem append_failure_ends_the_pass_witness:
  "received (says (ustr ''hello'') (ustr ''t1'')) = Text (ustr ''hello'')
   \<and> db_raises room_storage_down = Some PyMongoError
   \<and> fst (loop_body (ustr ''ann'') (says (ustr ''hello'') (ustr ''t1'')) room_storage_down) = Inl PyMongoError
   \<and> sent (snd (loop_body (ustr ''ann'') (says (ustr ''hello'') (ustr ''t1'')) room_storage_down)) = (\<lambda>_. [])
   \<and> messages_collection (snd (loop_body (ustr ''ann'') (says (ustr ''hello'') (ustr ''t1'')) room_storage_down)) = []
   \<and> fst (while_true (ustr ''ann'') [says (ustr ''hello'') (ustr ''t1''), says (ustr ''again'') (ustr ''t2'')] room_storage_down)
       = Some PyMongoError"
  using append_failure_ends_the_pass
    [of "says (ustr ''hello'') (ustr ''t1'')" "(ustr ''hello'')" room_storage_down PyMongoError "(ustr ''ann'')"
        "[says (ustr ''again'') (ustr ''t2'')]"]
  by (simp add: says_def room_storage_down_def room_def)

text \<open>
  Two late registrations. In the first, \<open>ann\<close>'s text has been received and stamped;
  while \<^verbatim>\<open>add_to_history\<close> is awaited, \<open>dee\<close>, who was not registered when the text
  arrived, registers with socket 4, and the broadcast that follows sends \<open>ann\<close>'s message
  to \<open>dee\<close>. In the second, a broadcast to the room is under way: while its first send is
  awaited, \<open>cy\<close> registers again with a new socket 7. The broadcast reads the map itself,
  so it sends to socket 7, registered after the broadcast began, and not to socket 3, which
  was \<open>cy\<close>'s when it began.
\<close>

theorem late_registration_receives:
  "\<not> dict_contains (active_connections room) (ustr ''dee'')
   \<and> sent (snd (loop_body (ustr ''ann'')
              ((says (ustr ''hello'') (ustr ''t1''))\<lparr>during_insert := [Connect (ustr ''dee'') 4]\<rparr>) room)) 4
       = [json_dumps \<lparr>client_id = (ustr ''ann''), content = (ustr ''hello''), timestamp = (ustr ''t1'')\<rparr>]
   \<and> dict_get (active_connections room) (ustr ''cy'') = Some 3
   \<and> fst (broadcast (ustr ''hi'') [([Connect (ustr ''cy'') 7], 0)] room) = Inr ()
   \<and> sent (snd (broadcast (ustr ''hi'') [([Connect (ustr ''cy'') 7], 0)] room)) 7 = [(ustr ''hi'')]
   \<and> sent (snd (broadcast (ustr ''hi'') [([Connect (ustr ''cy'') 7], 0)] room)) 3 = []"
  by code_simp

text \<open>
  C3, as the code has it. The recipients of a message are read from the connection map
  while the broadcast runs, and the broadcast starts after the append to the log has
  returned: handlers that register or unregister while the append is awaited change who
  receives the message. If no handler changes the map while the sends are awaited and the
  sockets are healthy, the recipients are exactly the sockets of the map as it stands when
  the append has returned, in insertion order. A connection that registers after the
  broadcast has returned is sent nothing by registering.
\<close>

theorem recipients_are_read_after_the_append:
  assumes "received t = Text data" and "db_raises w = None"
    and "during_receive t = []" and "during_sends t = []"
    and "\<forall>c \<in> set (dict_values (active_connections (apply_events (during_insert t) w))).
           send_raises w c = None"
  shows "loop_body cid t w =
           (Inr (),
            deliver (dict_values (active_connections (apply_events (during_insert t) w)))
              (json_dumps \<lparr>client_id = cid, content = data, timestamp = clock t\<rparr>)
              (apply_events (during_insert t)
                 (snd (add_to_history
                    \<lparr>client_id = cid, content = data, timestamp = clock t\<rparr> w))))
         \<and> sent (snd (connect cid' websocket' w')) = sent w'"
proof -
  let ?m = "\<lparr>client_id = cid, content = data, timestamp = clock t\<rparr>"
  let ?w1 = "apply_events (during_insert t) (snd (add_to_history ?m w))"
  have reg: "active_connections ?w1 = active_connections (apply_events (during_insert t) w)"
    by (intro apply_events_registry_cong) simp_all
  have "loop_body cid t w = broadcast (json_dumps ?m) [] ?w1"
    using assms(1-4) by (simp add: loop_body_Text Let_def)
  also have "\<dots> = (Inr (), deliver (dict_values (active_connections ?w1)) (json_dumps ?m) ?w1)"
    using assms(5) reg by (intro broadcast_quiet_ok) simp
  finally have "loop_body cid t w =
      (Inr (), deliver (dict_values (active_connections ?w1)) (json_dumps ?m) ?w1)" .
  moreover have "sent (snd (connect cid' websocket' w')) = sent w'"
    by (simp add: connect_eq split: option.splits)
  ultimately show ?thesis using reg by simp
qed

theorem recipients_are_read_after_the_append_witness:
  "received ((says (ustr ''hello'') (ustr ''t1''))\<lparr>during_insert := [Connect (ustr ''dee'') 4, Disconnect (ustr ''bo'')]\<rparr>)
     = Text (ustr ''hello'')
   \<and> db_raises room = None
   \<and> dict_values (active_connections
        (apply_events [Connect (ustr ''dee'') 4, Disconnect (ustr ''bo'')] room)) = [1, 3, 4]
   \<and> send_raises room 1 = None \<and> send_raises room 3 = None \<and> send_raises room 4 = None
   \<and> loop_body (ustr ''ann'')
        ((says (ustr ''hello'') (ustr ''t1''))\<lparr>during_insert := [Connect (ustr ''dee'') 4, Disconnect (ustr ''bo'')]\<rparr>) room
       = (Inr (),
          deliver [1, 3, 4]
            (json_dumps \<lparr>client_id = (ustr ''ann''), content = (ustr ''hello''), timestamp = (ustr ''t1'')\<rparr>)
            (apply_events [Connect (ustr ''dee'') 4, Disconnect (ustr ''bo'')]
               (snd (add_to_history
                  \<lparr>client_id = (ustr ''ann''), content = (ustr ''hello''), timestamp = (ustr ''t1'')\<rparr> room))))
   \<and> sent (snd (connect (ustr ''eve'') 5 room)) = sent room"
  using recipients_are_read_after_the_append
    [of "(says (ustr ''hello'') (ustr ''t1''))\<lparr>during_insert := [Connect (ustr ''dee'') 4, Disconnect (ustr ''bo'')]\<rparr>"
        "(ustr ''hello'')" room "(ustr ''ann'')" "(ustr ''eve'')" 5 room]
  by (simp add: says_def room_def connect_eq disconnect_eq)



text \<open>
  C10. \<^verbatim>\<open>send_personal_message\<close> to an identity that is not registered does nothing:
  it returns, and the world (the registry and what every socket has been sent) is as it
  was. To a registered identity it calls \<^verbatim>\<open>send_text\<close> on that identity's socket and
  on no other: when the socket is healthy the text is appended to what that socket has
  been sent and nothing else changes; when it is faulted the exception of the send is
  raised and nothing changes.
\<close>

theorem send_personal_message_registered_only:
  "(\<not> dict_contains (active_connections w) cid \<longrightarrow>
      send_personal_message msg cid w = (Inr (), w))
   \<and> (dict_get (active_connections w) cid = Some websocket \<and> send_raises w websocket = None \<longrightarrow>
        send_personal_message msg cid w =
          (Inr (), w\<lparr>sent := (sent w)(websocket := sent w websocket @ [msg])\<rparr>))
   \<and> (dict_get (active_connections w) cid = Some websocket \<and> send_raises w websocket = Some e \<longrightarrow>
        send_personal_message msg cid w = (Inl e, w))"
  by (auto simp: send_personal_message_def send_text_def dict_get_None [symmetric])

theorem send_personal_message_registered_only_witness:
  "\<not> dict_contains (active_connections room) (ustr ''zed'')
   \<and> send_personal_message (ustr ''psst'') (ustr ''zed'') room = (Inr (), room)
   \<and> dict_get (active_connections room) (ustr ''bo'') = Some 2 \<and> send_raises room 2 = None
   \<and> send_personal_message (ustr ''psst'') (ustr ''bo'') room
       = (Inr (), room\<lparr>sent := (sent room)(2 := sent room 2 @ [(ustr ''psst'')])\<rparr>)
   \<and> dict_get (active_connections room_bo_faulted) (ustr ''bo'') = Some 2
   \<and> send_raises room_bo_faulted 2 = Some RuntimeError
   \<and> send_personal_message (ustr ''psst'') (ustr ''bo'') room_bo_faulted = (Inl RuntimeError, room_bo_faulted)"
  using send_personal_message_registered_only [of room "(ustr ''zed'')" "(ustr ''psst'')" 2 RuntimeError]
    send_personal_message_registered_only [of room "(ustr ''bo'')" "(ustr ''psst'')" 2 RuntimeError]
    send_personal_message_registered_only [of room_bo_faulted "(ustr ''bo'')" "(ustr ''psst'')" 2 RuntimeError]
  by (simp add: room_def room_bo_faulted_def dict_get_def)

text \<open>
  C9. For a limit that is not negative and a healthy storage, \<^verbatim>\<open>get_message_history\<close>
  returns documents of the collection, at most \<open>limit\<close> of them, by descending
  timestamp (newest first), and issues one query to the collection. A run of the session
  handler, whatever arrives and whatever the other handlers do, issues only
  \<^verbatim>\<open>insert_one\<close> calls to the collection: the history is not read on the path that
  receives and broadcasts messages.
\<close>

theorem get_message_history_newest_first:
  assumes "0 \<le> limit" and "db_raises w = None"
  shows "(\<exists>docs. fst (get_message_history limit w) = Inr docs
            \<and> int (length docs) \<le> limit
            \<and> sorted_wrt (\<lambda>a b. timestamp b \<le> timestamp a) docs
            \<and> mset docs \<subseteq># mset (messages_collection w))
         \<and> db_calls (snd (get_message_history limit w)) = db_calls w @ [FindSortLimit limit]
         \<and> (\<exists>ms. db_calls (snd (websocket_endpoint websocket cid ts w'))
                  = db_calls w' @ map InsertOne ms)"
proof -
  let ?sorted = "sort_timestamp_desc (messages_collection w)"
  let ?docs = "take (nat limit) (cursor_limit limit ?sorted)"
  have res: "get_message_history limit w =
      (Inr ?docs, w\<lparr>db_calls := db_calls w @ [FindSortLimit limit]\<rparr>)"
    using assms by (simp add: get_message_history_def to_list_def)
  have cur: "cursor_limit limit ?sorted = ?sorted \<or> cursor_limit limit ?sorted = take (nat limit) ?sorted"
    using assms(1) by (simp add: cursor_limit_def)
  then have docs: "?docs = take (nat limit) ?sorted"
    by auto
  have len: "int (length ?docs) \<le> limit"
    using assms(1) by simp
  have srt: "sorted_wrt (\<lambda>a b. timestamp b \<le> timestamp a) ?docs"
    unfolding docs using sort_timestamp_desc_sorted by (rule sorted_wrt_take)
  have sub: "mset ?docs \<subseteq># mset (messages_collection w)"
    unfolding docs
    using mset_take_subseteq [of "nat limit" ?sorted] by (simp add: sort_timestamp_desc_mset)
  show ?thesis
    using res len srt sub websocket_endpoint_calls [of websocket cid ts w'] by simp
qed

theorem get_message_history_newest_first_witness:
  "(0::int) \<le> 2 \<and> db_raises archive = None
   \<and> fst (get_message_history 2 archive)
       = Inr [\<lparr>client_id = (ustr ''bo''), content = (ustr ''third''), timestamp = (ustr ''t3'')\<rparr>,
              \<lparr>client_id = (ustr ''ann''), content = (ustr ''second''), timestamp = (ustr ''t2'')\<rparr>]
   \<and> db_calls (snd (get_message_history 2 archive)) = [FindSortLimit 2]
   \<and> db_calls (snd (websocket_endpoint 4 (ustr ''dee'') [says (ustr ''hello'') (ustr ''t4'')] archive))
       = [InsertOne \<lparr>client_id = (ustr ''dee''), content = (ustr ''hello''), timestamp = (ustr ''t4'')\<rparr>]"
proof -
  have "fst (get_message_history 2 archive)
       = Inr [\<lparr>client_id = (ustr ''bo''), content = (ustr ''third''), timestamp = (ustr ''t3'')\<rparr>,
              \<lparr>client_id = (ustr ''ann''), content = (ustr ''second''), timestamp = (ustr ''t2'')\<rparr>]"
    by code_simp
  moreover have "db_calls (snd (websocket_endpoint 4 (ustr ''dee'') [says (ustr ''hello'') (ustr ''t4'')] archive))
       = [InsertOne \<lparr>client_id = (ustr ''dee''), content = (ustr ''hello''), timestamp = (ustr ''t4'')\<rparr>]"
    by code_simp
  moreover have "db_raises archive = None" "db_calls archive = []"
    by (simp_all add: archive_def room_def)
  ultimately show ?thesis
    using get_message_history_newest_first
      [of 2 archive 4 "(ustr ''dee'')" "[says (ustr ''hello'') (ustr ''t4'')]" archive]
    by simp
qed






end
